theory Spec2Isabelle
  imports Complex_Main "HOL-Library.Log_Nat" "HOL-Library.Word"
begin

section \<open>JavaScript values the client handles\<close>

text \<open>
  The client is TypeScript on Node. Strings are modelled as \<^typ>\<open>string\<close>: a list of
  code units, restricted to the 8-bit range. Numbers are modelled by the integer values
  they take in this code (byte counts, HTTP status codes, loop counters, delays) together
  with the value NaN; every integer of magnitude below \<open>2 ^ 53\<close> is a double, sums and
  differences of such integers that stay in that range are exact, and so is a division by
  a power of two, so on that range the model's integer arithmetic is the code's
  arithmetic. JSON numbers with a fractional part are outside the model.
\<close>

datatype jsnumber = Num int | NaN

datatype json =
    JNull
  | JBool bool
  | JNum int
  | JStr string
  | JArr "json list"
  | JObj "(string \<times> json) list"

text \<open>
  What a \<^verbatim>\<open>throw\<close> or a rejected promise carries. An instance of \<^verbatim>\<open>Error\<close>
  is modelled by its \<^verbatim>\<open>message\<close>; any other thrown value by \<^verbatim>\<open>null\<close> itself or by
  the text \<^verbatim>\<open>String(value)\<close> gives for it.
\<close>

datatype thrown = ErrorInst string | ThrownNull | ThrownOther string

definition instanceof_Error :: "thrown \<Rightarrow> bool" where
  "instanceof_Error e = (case e of ErrorInst m \<Rightarrow> True | ThrownNull \<Rightarrow> False | ThrownOther v \<Rightarrow> False)"

text \<open>\<^verbatim>\<open>String(error)\<close> for a thrown value that is not an \<^verbatim>\<open>Error\<close>.\<close>

definition String_of_thrown :: "thrown \<Rightarrow> string" where
  "String_of_thrown e = (case e of ErrorInst m \<Rightarrow> ''Error: '' @ m | ThrownNull \<Rightarrow> ''null'' | ThrownOther v \<Rightarrow> v)"

text \<open>\<^verbatim>\<open>error instanceof Error ? error.message : fallback\<close>, the test of every catch block.\<close>

definition message_or :: "string \<Rightarrow> thrown \<Rightarrow> string" where
  "message_or fallback e = (case e of ErrorInst m \<Rightarrow> m | ThrownNull \<Rightarrow> fallback | ThrownOther v \<Rightarrow> fallback)"

subsection \<open>Numbers as text\<close>

definition digit_char :: "nat \<Rightarrow> char" where
  "digit_char d = ''0123456789'' ! d"

fun show_nat :: "nat \<Rightarrow> string" where
  "show_nat n = (if n < 10 then [digit_char n] else show_nat (n div 10) @ [digit_char (n mod 10)])"

declare show_nat.simps [simp del]

text \<open>\<^verbatim>\<open>Number.prototype.toString\<close> on an integer (of magnitude below \<open>10 ^ 21\<close>).\<close>

definition show_int :: "int \<Rightarrow> string" where
  "show_int n = (if n < 0 then ''-'' @ show_nat (nat (- n)) else show_nat (nat n))"

text \<open>
  \<^verbatim>\<open>(num / den).toFixed(2)\<close> for a number that is the exact quotient of two
  non-negative integers, \<open>den > 0\<close>: \<^verbatim>\<open>toFixed\<close> takes the integer \<open>n\<close> for which
  \<open>n / 100\<close> is closest to the value, the larger one on a tie, and prints it with two
  fraction digits. \<open>hundredths\<close> is that \<open>n\<close>.
\<close>

definition hundredths :: "nat \<Rightarrow> nat \<Rightarrow> nat" where
  "hundredths num den = (200 * num + den) div (2 * den)"



definition two_digits :: "nat \<Rightarrow> string" where
  "two_digits k = [digit_char (k div 10), digit_char (k mod 10)]"

definition fixed2 :: "nat \<Rightarrow> string" where
  "fixed2 n = show_nat (n div 100) @ ''.'' @ two_digits (n mod 100)"

text \<open>
  \<^verbatim>\<open>`${parseFloat(s)}`\<close> for \<open>s\<close> the two-digit text of \<open>n\<close> hundredths:
  \<^verbatim>\<open>parseFloat\<close> reads the number back and the template prints the shortest decimal
  that denotes it, which is the same text without trailing zeros.
\<close>

definition shortest2 :: "nat \<Rightarrow> string" where
  "shortest2 n =
     (if n mod 100 = 0 then show_nat (n div 100)
      else if n mod 10 = 0 then show_nat (n div 100) @ ''.'' @ [digit_char (n mod 100 div 10)]
      else fixed2 n)"

section \<open>The utilities\<close>

subsection \<open>The table of units\<close>

definition sizes :: "string list" where
  "sizes = [''Bytes'', ''KB'', ''MB'', ''GB'', ''TB'']"

text \<open>\<^verbatim>\<open>`${sizes[i]}`\<close>: an index past the table reads \<^verbatim>\<open>undefined\<close>.\<close>

definition sizes_at :: "nat \<Rightarrow> string" where
  "sizes_at i = (if i < length sizes then sizes ! i else ''undefined'')"

text \<open>
  The floor of the logarithm to base 1024 in exact arithmetic: the number of times 1024
  divides into a count before it drops below 1024. This is the number that
  \<^verbatim>\<open>Math.floor(Math.log(bytes) / Math.log(1024))\<close> approximates, not what the code
  computes: the code divides two rounded logarithms and rounds the quotient, which just
  below a power of 1024 can reach the next whole number.
\<close>

fun exact_log1024 :: "nat \<Rightarrow> nat" where
  "exact_log1024 n = (if n < 1024 then 0 else Suc (exact_log1024 (n div 1024)))"

declare exact_log1024.simps [simp del]

subsection \<open>isValidCID\<close>

definition is_alnum :: "char \<Rightarrow> bool" where
  "is_alnum c =
     (let n = (of_char c :: nat) in
      (97 \<le> n \<and> n \<le> 122) \<or> (65 \<le> n \<and> n \<le> 90) \<or> (48 \<le> n \<and> n \<le> 57))"

text \<open>\<^verbatim>\<open>/^[a-zA-Z0-9]{46,59}$/.test(cid)\<close>; without the \<^verbatim>\<open>m\<close> flag \<^verbatim>\<open>$\<close> is the end of the text.\<close>

definition isValidCID :: "string \<Rightarrow> bool" where
  "isValidCID cid = (46 \<le> length cid \<and> length cid \<le> 59 \<and> list_all is_alnum cid)"

subsection \<open>withRetry\<close>

text \<open>
  An asynchronous operation is a function of the state of the world that returns its
  outcome, \<open>Inl\<close> what it threw or \<open>Inr\<close> its value, and the state it leaves.
\<close>

type_synonym ('s, 'a) io = "'s \<Rightarrow> (thrown + 'a) \<times> 's"

text \<open>
  What \<^verbatim>\<open>withRetry\<close> does besides returning: it invokes \<^verbatim>\<open>fn\<close> at a loop index and
  it awaits a timer. The trace lists these in the order they happen.
\<close>

datatype retry_event = Attempt nat | Backoff int

text \<open>The time a trace spends waiting: the sum of the delays of its timers.\<close>

fun total_wait :: "retry_event list \<Rightarrow> int" where
  "total_wait [] = 0"
| "total_wait (Attempt i # tr) = total_wait tr"
| "total_wait (Backoff d # tr) = d + total_wait tr"

text \<open>
  \<^verbatim>\<open>lastError = error instanceof Error ? error : new Error(String(error))\<close>, as the message
  of the error kept.
\<close>

definition as_Error :: "thrown \<Rightarrow> string" where
  "as_Error e = (if instanceof_Error e then message_or [] e else String_of_thrown e)"

text \<open>\<^verbatim>\<open>throw lastError\<close>, where \<^verbatim>\<open>lastError\<close> is an \<^verbatim>\<open>Error\<close> or still \<^verbatim>\<open>null\<close>.\<close>

definition throw_lastError :: "string option \<Rightarrow> thrown" where
  "throw_lastError lastError = (case lastError of None \<Rightarrow> ThrownNull | Some m \<Rightarrow> ErrorInst m)"

function withRetry_loop ::
  "('s, 'a) io \<Rightarrow> int \<Rightarrow> int \<Rightarrow> nat \<Rightarrow> string option \<Rightarrow> 's \<Rightarrow> retry_event list
     \<Rightarrow> ((thrown + 'a) \<times> 's) \<times> retry_event list" where
  "withRetry_loop fn maxRetries delay i lastError s tr =
     (if int i < maxRetries then
        (case fn s of
           (Inr v, s') \<Rightarrow> ((Inr v, s'), tr @ [Attempt i])
         | (Inl error, s') \<Rightarrow>
             withRetry_loop fn maxRetries delay (Suc i) (Some (as_Error error)) s'
               (if int i < maxRetries - 1
                then tr @ [Attempt i, Backoff (delay * 2 ^ i)]
                else tr @ [Attempt i]))
      else ((Inl (throw_lastError lastError), s), tr))"
  by pat_completeness auto
termination
  by (relation "measure (\<lambda>(fn, maxRetries, delay, i, lastError, s, tr). nat (maxRetries - int i))") auto

declare withRetry_loop.simps [simp del]

definition withRetry ::
  "('s, 'a) io \<Rightarrow> int \<Rightarrow> int \<Rightarrow> 's \<Rightarrow> ((thrown + 'a) \<times> 's) \<times> retry_event list" where
  "withRetry fn maxRetries delay s = withRetry_loop fn maxRetries delay 0 None s []"

section \<open>The world the client talks to\<close>

type_synonym buffer = "8 word list"

datatype http_method = GET | POST | HEAD

text \<open>One entry of a \<^verbatim>\<open>FormData\<close>: field name, content of the \<^verbatim>\<open>Blob\<close>, file name.\<close>

type_synonym form_part = "string \<times> buffer \<times> string"

record request =
  verb :: http_method
  url :: string
  req_headers :: "(string \<times> string) list"
  form :: "form_part list"

record response =
  status :: int
  data :: json
  resp_headers :: "(string \<times> string) list"

text \<open>
  Everything the module imports or takes from the runtime is a field of the environment:
  the file system, \<^verbatim>\<open>file-type\<close> and \<^verbatim>\<open>axios\<close> act on the state of the outside
  world and may throw; \<^verbatim>\<open>path.basename\<close>, \<^verbatim>\<open>JSON.stringify\<close> (on a response body),
  \<^verbatim>\<open>JSON.parse\<close>, \<^verbatim>\<open>parseInt(_, 10)\<close> (\<open>None\<close> is the argument \<^verbatim>\<open>undefined\<close>) and
  the conversion of a string to a number are functions of their argument. So is
  \<open>floor_log1024\<close>, the value of \<^verbatim>\<open>Math.floor(Math.log(bytes) / Math.log(1024))\<close> at a
  positive integer: \<^verbatim>\<open>Math.log\<close> is an approximation of the engine's choosing and the
  quotient of the two logarithms is rounded before the floor is taken; both logarithms
  are finite and not negative, so the value is a whole number that is not negative. A call of
  \<^verbatim>\<open>axios\<close> gives \<open>Inr\<close> when its promise resolves with a response, whatever the status
  of the response, and \<open>Inl\<close> when the promise rejects (which \<^verbatim>\<open>axios\<close>, as configured by
  default, also does for a status outside 200 to 299).
\<close>

record 'x env =
  readFileSync :: "string \<Rightarrow> ('x, buffer) io"
  fromBuffer :: "buffer \<Rightarrow> ('x, string option) io"
  axios :: "request \<Rightarrow> ('x, response) io"
  basename :: "string \<Rightarrow> string"
  JSON_stringify :: "json \<Rightarrow> string"
  JSON_parse :: "string \<Rightarrow> thrown + json"
  parseInt10 :: "string option \<Rightarrow> jsnumber"
  StringToNumber :: "string \<Rightarrow> jsnumber"
  floor_log1024 :: "nat \<Rightarrow> nat"

text \<open>
  The state the methods run in: the state of the outside world, and the requests handed
  to \<^verbatim>\<open>axios\<close> so far, oldest first.
\<close>

record 'x world =
  sent :: "request list"
  outside :: 'x

definition io_return :: "'a \<Rightarrow> ('s, 'a) io" where
  "io_return v s = (Inr v, s)"

definition io_throw :: "thrown \<Rightarrow> ('s, 'a) io" where
  "io_throw e s = (Inl e, s)"

definition io_bind :: "('s, 'a) io \<Rightarrow> ('a \<Rightarrow> ('s, 'b) io) \<Rightarrow> ('s, 'b) io" where
  "io_bind m f s = (case m s of (Inl e, s') \<Rightarrow> (Inl e, s') | (Inr v, s') \<Rightarrow> f v s')"

text \<open>A call that returns or throws without touching the world.\<close>

definition io_of :: "thrown + 'a \<Rightarrow> ('s, 'a) io" where
  "io_of r s = (r, s)"

text \<open>\<^verbatim>\<open>try { body } catch (error) { handler }\<close>\<close>

definition try_catch :: "('s, 'a) io \<Rightarrow> (thrown \<Rightarrow> ('s, 'a) io) \<Rightarrow> ('s, 'a) io" where
  "try_catch body handler s =
     (case body s of (Inl e, s') \<Rightarrow> handler e s' | (Inr v, s') \<Rightarrow> (Inr v, s'))"

definition on_outside :: "('x, 'a) io \<Rightarrow> ('x world, 'a) io" where
  "on_outside m s = (case m (outside s) of (r, x') \<Rightarrow> (r, s\<lparr>outside := x'\<rparr>))"

definition http :: "'x env \<Rightarrow> request \<Rightarrow> ('x world, response) io" where
  "http E req s =
     (case axios E req (outside s) of
        (r, x') \<Rightarrow> (r, s\<lparr>sent := sent s @ [req], outside := x'\<rparr>))"

section \<open>formatFileSize\<close>

text \<open>
  \<^verbatim>\<open>formatFileSize(bytes)\<close> on an integer. Zero is answered first. A negative count has
  the logarithm NaN, which makes the index, the power, the quotient and the printed
  number NaN, and \<^verbatim>\<open>sizes[NaN]\<close> is \<^verbatim>\<open>undefined\<close>. For a positive count the index
  \<open>i\<close> is the one the engine computes; \<^verbatim>\<open>Math.pow(1024, i)\<close> is a power of two and the
  division by it exact, \<^verbatim>\<open>toFixed(2)\<close> rounds the quotient to hundredths and
  \<^verbatim>\<open>parseFloat\<close> with the template prints them without trailing zeros.
\<close>

definition formatFileSize :: "'x env \<Rightarrow> int \<Rightarrow> string" where
  "formatFileSize E bytes =
     (if bytes = 0 then ''0 Bytes''
      else if bytes < 0 then ''NaN undefined''
      else let i = floor_log1024 E (nat bytes) in
        shortest2 (hundredths (nat bytes) (1024 ^ i)) @ '' '' @ sizes_at i)"

section \<open>Web3Storage\<close>

record UploadResponse =
  STATUS_CODE :: "int option"
  RESPONSE :: string

text \<open>\<^verbatim>\<open>this.BASE_URL.replace("{}", name)\<close>, for a name without \<^verbatim>\<open>$\<close>.\<close>

definition BASE_URL_replace :: "string \<Rightarrow> string" where
  "BASE_URL_replace name = ''https://api.web3.storage/'' @ name"

definition Bearer :: "string \<Rightarrow> string" where
  "Bearer token = ''Bearer '' @ token"

text \<open>The request \<^verbatim>\<open>upload\<close> posts for a file of the given content and detected type.\<close>

definition upload_request :: "'x env \<Rightarrow> string \<Rightarrow> string \<Rightarrow> buffer \<Rightarrow> string option \<Rightarrow> request" where
  "upload_request E filePath token fileContent mimeType =
     (let fileName = basename E filePath;
          contentType = (case mimeType of
                           Some mime \<Rightarrow> (if mime = [] then ''application/octet-stream'' else mime)
                         | None \<Rightarrow> ''application/octet-stream'');
          headers = [(''Content-Type'', contentType),
                     (''Authorization'', Bearer token),
                     (''X-NAME'', fileName)];
          formData = [(fileName, fileContent, fileName)];
          uploadEndpoint = BASE_URL_replace ''upload''
      in \<lparr>verb = POST, url = uploadEndpoint, req_headers = headers, form = formData\<rparr>)"

definition upload_body :: "'x env \<Rightarrow> string \<Rightarrow> string \<Rightarrow> ('x world, UploadResponse) io" where
  "upload_body E filePath token =
     io_bind (on_outside (readFileSync E filePath)) (\<lambda>fileContent.
       io_bind (on_outside (fromBuffer E fileContent)) (\<lambda>mimeType.
         io_bind (http E (upload_request E filePath token fileContent mimeType))
           (\<lambda>response.
              if status response = 200
              then io_return \<lparr>STATUS_CODE = Some 200, RESPONSE = JSON_stringify E (data response)\<rparr>
              else io_return \<lparr>STATUS_CODE = None, RESPONSE = JSON_stringify E (data response)\<rparr>)))"

definition upload :: "'x env \<Rightarrow> string \<Rightarrow> string \<Rightarrow> ('x world, UploadResponse) io" where
  "upload E filePath token =
     try_catch (upload_body E filePath token)
       (\<lambda>error. io_return \<lparr>STATUS_CODE = None, RESPONSE = message_or ''Unknown error occurred'' error\<rparr>)"

definition userUploads :: "'x env \<Rightarrow> string \<Rightarrow> ('x world, string) io" where
  "userUploads E token =
     try_catch
       (let headers = [(''Authorization'', Bearer token)];
            uploadsEndpoint = BASE_URL_replace ''user/uploads''
        in io_bind (http E \<lparr>verb = GET, url = uploadsEndpoint, req_headers = headers, form = []\<rparr>)
             (\<lambda>response. io_return (JSON_stringify E (data response))))
       (\<lambda>error. io_return (message_or ''Unknown error occurred'' error))"

definition getUpload :: "string \<Rightarrow> string" where
  "getUpload cid = ''https://'' @ cid @ ''.ipfs.w3s.link''"

subsection \<open>uploadMultiple\<close>

text \<open>The \<^verbatim>\<open>for\<close> loop over the paths, which fills the one \<^verbatim>\<open>FormData\<close>.\<close>

fun append_files :: "'x env \<Rightarrow> string list \<Rightarrow> form_part list \<Rightarrow> ('x world, form_part list) io" where
  "append_files E [] formData = io_return formData"
| "append_files E (filePath # rest) formData =
     io_bind (on_outside (readFileSync E filePath)) (\<lambda>fileContent.
       let fileName = basename E filePath in
       io_bind (on_outside (fromBuffer E fileContent)) (\<lambda>mimeType.
         append_files E rest (formData @ [(fileName, fileContent, fileName)])))"

text \<open>
  Writing a property into an object literal: a key already there keeps its place and
  takes the new value, a new key goes last.
\<close>

fun set_property :: "string \<Rightarrow> json \<Rightarrow> (string \<times> json) list \<Rightarrow> (string \<times> json) list" where
  "set_property k v [] = [(k, v)]"
| "set_property k v (p # ps) = (if fst p = k then (k, v) # ps else p # set_property k v ps)"

text \<open>
  The own enumerable properties \<^verbatim>\<open>...value\<close> copies: those of an object, the indexed
  elements of an array, the indexed characters of a string, and none of \<^verbatim>\<open>null\<close>, a
  boolean or a number.
\<close>

definition own_properties :: "json \<Rightarrow> (string \<times> json) list" where
  "own_properties v =
     (case v of
        JObj kvs \<Rightarrow> kvs
      | JArr xs \<Rightarrow> map (\<lambda>i. (show_nat i, xs ! i)) [0..<length xs]
      | JStr cs \<Rightarrow> map (\<lambda>i. (show_nat i, JStr [cs ! i])) [0..<length cs]
      | JNull \<Rightarrow> []
      | JBool b \<Rightarrow> []
      | JNum n \<Rightarrow> [])"

text \<open>\<^verbatim>\<open>{ fileName: name, ...data }\<close>\<close>

definition with_fileName :: "string \<Rightarrow> json \<Rightarrow> json" where
  "with_fileName name body =
     JObj (foldl (\<lambda>obj (k, v). set_property k v obj) [(''fileName'', JStr name)] (own_properties body))"

definition uploadMultiple :: "'x env \<Rightarrow> string list \<Rightarrow> string \<Rightarrow> ('x world, UploadResponse list) io" where
  "uploadMultiple E filePaths token =
     try_catch
       (io_bind (append_files E filePaths []) (\<lambda>formData.
          let headers = [(''Authorization'', Bearer token)];
              uploadEndpoint = BASE_URL_replace ''upload''
          in io_bind (http E \<lparr>verb = POST, url = uploadEndpoint, req_headers = headers, form = formData\<rparr>)
               (\<lambda>response.
                  if status response = 200
                  then io_return
                         (map (\<lambda>filePath.
                                 \<lparr>STATUS_CODE = Some 200,
                                  RESPONSE = JSON_stringify E (with_fileName (basename E filePath) (data response))\<rparr>)
                            filePaths)
                  else io_throw (ErrorInst (''Upload failed with status: '' @ show_int (status response))))))
       (\<lambda>error. io_return
          (map (\<lambda>filePath. \<lparr>STATUS_CODE = None, RESPONSE = message_or ''Unknown error occurred'' error\<rparr>)
             filePaths))"

subsection \<open>fileExists, isValidToken\<close>

definition fileExists :: "'x env \<Rightarrow> string \<Rightarrow> ('x world, bool) io" where
  "fileExists E cid =
     try_catch
       (let url = ''https://'' @ cid @ ''.ipfs.w3s.link''
        in io_bind (http E \<lparr>verb = HEAD, url = url, req_headers = [], form = []\<rparr>)
             (\<lambda>response. io_return (status response = 200)))
       (\<lambda>error. io_return False)"

definition isValidToken :: "'x env \<Rightarrow> string \<Rightarrow> ('x world, bool) io" where
  "isValidToken E token =
     try_catch
       (let headers = [(''Authorization'', Bearer token)];
            endpoint = BASE_URL_replace ''user/uploads''
        in io_bind (http E \<lparr>verb = HEAD, url = endpoint, req_headers = headers, form = []\<rparr>)
             (\<lambda>response. io_return (status response = 200)))
       (\<lambda>error. io_return False)"

subsection \<open>getTotalStorageUsed\<close>

text \<open>
  \<^verbatim>\<open>item.size\<close> on a parsed JSON value: reading a property of \<^verbatim>\<open>null\<close> throws a
  \<^verbatim>\<open>TypeError\<close> (the message is the engine's); an object gives its property, or
  \<^verbatim>\<open>undefined\<close> (\<open>None\<close>) without it; arrays, strings, numbers and booleans have no
  property of that name.
\<close>

definition null_size_message :: string where
  "null_size_message = ''Cannot read properties of null (reading 'size')''"

definition get_size :: "json \<Rightarrow> thrown + json option" where
  "get_size item =
     (case item of
        JNull \<Rightarrow> Inl (ErrorInst null_size_message)
      | JObj kvs \<Rightarrow> Inr (map_of kvs ''size'')
      | JArr xs \<Rightarrow> Inr None
      | JStr cs \<Rightarrow> Inr None
      | JNum n \<Rightarrow> Inr None
      | JBool b \<Rightarrow> Inr None)"

text \<open>Truthiness of a parsed JSON value; \<^verbatim>\<open>undefined\<close> is falsy as well.\<close>

definition truthy :: "json \<Rightarrow> bool" where
  "truthy v =
     (case v of
        JNull \<Rightarrow> False
      | JBool b \<Rightarrow> b
      | JNum n \<Rightarrow> n \<noteq> 0
      | JStr cs \<Rightarrow> cs \<noteq> []
      | JArr xs \<Rightarrow> True
      | JObj kvs \<Rightarrow> True)"

text \<open>\<^verbatim>\<open>value || 0\<close>\<close>

definition or_zero :: "json option \<Rightarrow> json" where
  "or_zero v = (case v of None \<Rightarrow> JNum 0 | Some x \<Rightarrow> (if truthy x then x else JNum 0))"

fun join_comma :: "string list \<Rightarrow> string" where
  "join_comma [] = []"
| "join_comma [x] = x"
| "join_comma (x # y # ys) = x @ '','' @ join_comma (y # ys)"

text \<open>
  \<^verbatim>\<open>String(value)\<close>. An array is its elements joined by commas, \<^verbatim>\<open>null\<close> elements as
  the empty text.
\<close>

fun ToString :: "json \<Rightarrow> string" where
  "ToString JNull = ''null''"
| "ToString (JBool b) = (if b then ''true'' else ''false'')"
| "ToString (JNum n) = show_int n"
| "ToString (JStr cs) = cs"
| "ToString (JArr xs) = join_comma (map (\<lambda>x. if x = JNull then [] else ToString x) xs)"
| "ToString (JObj kvs) = ''[object Object]''"

text \<open>The accumulator of the \<^verbatim>\<open>reduce\<close>: it starts as the number 0 and may become text.\<close>

datatype total = TNum int | TStr string

text \<open>
  \<^verbatim>\<open>acc + value\<close>: with text, an array or an object on either side it is the
  concatenation of the two as text; otherwise it is the sum, where \<^verbatim>\<open>true\<close> counts 1
  and \<^verbatim>\<open>false\<close> and \<^verbatim>\<open>null\<close> count 0.
\<close>

definition js_plus :: "total \<Rightarrow> json \<Rightarrow> total" where
  "js_plus acc v =
     (case acc of
        TStr cs \<Rightarrow> TStr (cs @ ToString v)
      | TNum a \<Rightarrow>
          (case v of
             JNum n \<Rightarrow> TNum (a + n)
           | JBool b \<Rightarrow> TNum (a + (if b then 1 else 0))
           | JNull \<Rightarrow> TNum a
           | JStr cs \<Rightarrow> TStr (show_int a @ cs)
           | JArr xs \<Rightarrow> TStr (show_int a @ ToString v)
           | JObj kvs \<Rightarrow> TStr (show_int a @ ToString v)))"

text \<open>\<^verbatim>\<open>data.reduce((acc, item) => acc + (item.size || 0), acc0)\<close>\<close>

fun reduce_sizes :: "total \<Rightarrow> json list \<Rightarrow> thrown + total" where
  "reduce_sizes acc [] = Inr acc"
| "reduce_sizes acc (item # rest) =
     (case get_size item of
        Inl e \<Rightarrow> Inl e
      | Inr sz \<Rightarrow> reduce_sizes (js_plus acc (or_zero sz)) rest)"

text \<open>\<^verbatim>\<open>(x / den).toFixed(2)\<close> for \<open>den\<close> a power of two.\<close>

definition toFixed2_over :: "nat \<Rightarrow> jsnumber \<Rightarrow> string" where
  "toFixed2_over den x =
     (case x of
        NaN \<Rightarrow> ''NaN''
      | Num t \<Rightarrow>
          (if t < 0 then ''-'' @ fixed2 (hundredths (nat (- t)) den)
           else fixed2 (hundredths (nat t) den)))"

definition ToNumber :: "'x env \<Rightarrow> total \<Rightarrow> jsnumber" where
  "ToNumber E t = (case t of TNum n \<Rightarrow> Num n | TStr cs \<Rightarrow> StringToNumber E cs)"

definition getTotalStorageUsed :: "'x env \<Rightarrow> string \<Rightarrow> ('x world, string) io" where
  "getTotalStorageUsed E token =
     try_catch
       (io_bind (userUploads E token) (\<lambda>uploads.
          io_bind (io_of (JSON_parse E uploads)) (\<lambda>parsed.
            case parsed of
              JArr items \<Rightarrow>
                io_bind (io_of (reduce_sizes (TNum 0) items)) (\<lambda>totalBytes.
                  let sizeInGB = toFixed2_over (1024 * 1024 * 1024) (ToNumber E totalBytes)
                  in io_return (sizeInGB @ '' GB''))
            | JNull \<Rightarrow> io_return ''0 GB''
            | JBool b \<Rightarrow> io_return ''0 GB''
            | JNum n \<Rightarrow> io_return ''0 GB''
            | JStr cs \<Rightarrow> io_return ''0 GB''
            | JObj kvs \<Rightarrow> io_return ''0 GB'')))
       (\<lambda>error. io_throw (ErrorInst (''Failed to get storage usage: '' @ message_or ''Unknown error'' error)))"

text \<open>
  What an element of the uploads list counts for when its size is a number, or is
  missing or falsy: the number, and 0 otherwise.
\<close>

definition size_or_zero :: "json \<Rightarrow> int" where
  "size_or_zero item =
     (case item of
        JObj kvs \<Rightarrow> (case map_of kvs ''size'' of Some (JNum n) \<Rightarrow> n | _ \<Rightarrow> 0)
      | _ \<Rightarrow> 0)"

text \<open>
  The elements the sum is about: anything but \<^verbatim>\<open>null\<close>, with a size that is absent, a
  number, or falsy (\<^verbatim>\<open>null\<close>, \<^verbatim>\<open>false\<close>, the empty text).
\<close>

definition sized :: "json \<Rightarrow> bool" where
  "sized item =
     (case item of
        JNull \<Rightarrow> False
      | JObj kvs \<Rightarrow>
          (case map_of kvs ''size'' of
             None \<Rightarrow> True
           | Some v \<Rightarrow> (case v of JNum n \<Rightarrow> True | _ \<Rightarrow> \<not> truthy v))
      | _ \<Rightarrow> True)"

subsection \<open>getFileUrl, uploadWithRetry, getFileSize\<close>

definition getFileUrl :: "string \<Rightarrow> thrown + string" where
  "getFileUrl cid =
     (if \<not> isValidCID cid then Inl (ErrorInst ''Invalid CID format'')
      else Inr (''https://'' @ cid @ ''.ipfs.w3s.link''))"

definition uploadWithRetry ::
  "'x env \<Rightarrow> string \<Rightarrow> string \<Rightarrow> int \<Rightarrow> 'x world
     \<Rightarrow> ((thrown + UploadResponse) \<times> 'x world) \<times> retry_event list" where
  "uploadWithRetry E filePath token maxRetries = withRetry (upload E filePath token) maxRetries 1000"

text \<open>\<^verbatim>\<open>value || 0\<close> on a number.\<close>

definition number_or_zero :: "jsnumber \<Rightarrow> int" where
  "number_or_zero x = (case x of NaN \<Rightarrow> 0 | Num n \<Rightarrow> n)"

definition getFileSize :: "'x env \<Rightarrow> string \<Rightarrow> ('x world, string) io" where
  "getFileSize E cid =
     try_catch
       (io_bind (io_of (getFileUrl cid)) (\<lambda>url.
          io_bind (http E \<lparr>verb = HEAD, url = url, req_headers = [], form = []\<rparr>)
            (\<lambda>response.
               let contentLength = map_of (resp_headers response) ''content-length'';
                   size = number_or_zero (parseInt10 E contentLength)
               in io_return (formatFileSize E size))))
       (\<lambda>error. io_throw (ErrorInst (''Failed to get file size: '' @ message_or ''Unknown error'' error)))"

section \<open>A small concrete world\<close>

text \<open>
  An environment to run the client in: a table of files, and a server that answers a
  request by a function of the request and of the number of requests answered before,
  which is the state of the outside world. The runtime functions are simple stand-ins:
  they are right on the texts used below, and the logarithm index is the exact one,
  which is the engine's wherever the quotient of the logarithms is not within rounding
  distance of a whole number.
\<close>

fun render :: "json \<Rightarrow> string" where
  "render JNull = ''null''"
| "render (JBool b) = (if b then ''true'' else ''false'')"
| "render (JNum n) = show_int n"
| "render (JStr cs) = [CHR 0x22] @ cs @ [CHR 0x22]"
| "render (JArr xs) = ''['' @ join_comma (map render xs) @ '']''"
| "render (JObj kvs) =
     ''{'' @ join_comma (map (\<lambda>(k, v). [CHR 0x22] @ k @ [CHR 0x22] @ '':'' @ render v) kvs) @ ''}''"

definition parse_known :: "json list \<Rightarrow> string \<Rightarrow> thrown + json" where
  "parse_known known cs =
     (case find (\<lambda>v. render v = cs) known of
        Some v \<Rightarrow> Inr v
      | None \<Rightarrow> Inl (ErrorInst ''Unexpected token''))"

definition last_segment :: "string \<Rightarrow> string" where
  "last_segment p = rev (takeWhile (\<lambda>c. c \<noteq> CHR ''/'') (rev p))"

definition small_env ::
  "(string \<Rightarrow> buffer option) \<Rightarrow> (nat \<Rightarrow> request \<Rightarrow> thrown + response) \<Rightarrow> json list \<Rightarrow> nat env" where
  "small_env files server known =
     \<lparr>readFileSync = (\<lambda>p n. case files p of
                              None \<Rightarrow> (Inl (ErrorInst ''ENOENT: no such file or directory''), n)
                            | Some b \<Rightarrow> (Inr b, n)),
      fromBuffer = (\<lambda>b n. (Inr None, n)),
      axios = (\<lambda>req n. (server n req, Suc n)),
      basename = last_segment,
      JSON_stringify = render,
      JSON_parse = parse_known known,
      parseInt10 = (\<lambda>h. NaN),
      StringToNumber = (\<lambda>cs. NaN),
      floor_log1024 = exact_log1024\<rparr>"

definition start :: "nat world" where
  "start = \<lparr>sent = [], outside = 0\<rparr>"

definition answer :: "int \<Rightarrow> json \<Rightarrow> nat \<Rightarrow> request \<Rightarrow> thrown + response" where
  "answer code body n req = Inr \<lparr>status = code, data = body, resp_headers = []\<rparr>"

definition network_down :: "nat \<Rightarrow> request \<Rightarrow> thrown + response" where
  "network_down n req = Inl (ErrorInst ''Network Error'')"

definition one_file :: "string \<Rightarrow> buffer option" where
  "one_file p = (if p = ''/tmp/a.txt'' then Some [1, 2, 3] else None)"

text \<open>An operation that plays a script: its \<open>n\<close>-th invocation has the \<open>n\<close>-th outcome.\<close>

definition scripted :: "(nat \<Rightarrow> thrown + 'a) \<Rightarrow> (nat, 'a) io" where
  "scripted outcome n = (outcome n, Suc n)"

text \<open>An uploads list of two files of one gigabyte each.\<close>

definition two_uploads :: json where
  "two_uploads = JArr [JObj [(''size'', JNum 1073741824)], JObj [(''size'', JNum 1073741824)]]"

text \<open>Two scripts: one fails twice and then succeeds, one always throws a non-error.\<close>

definition flaky :: "nat \<Rightarrow> thrown + string" where
  "flaky n = (if n < 2 then Inl (ErrorInst ''ECONNRESET'') else Inr ''done'')"

definition hopeless :: "nat \<Rightarrow> thrown + string" where
  "hopeless n = Inl (ThrownOther (show_nat n))"

section \<open>Properties\<close>

lemmas io_defs = io_return_def io_throw_def io_bind_def try_catch_def io_of_def on_outside_def http_def

subsection \<open>Gateway addresses\<close>

lemma alnum_replicate_Q: "list_all is_alnum (replicate n (CHR ''Q''))"
  by (induction n) (simp_all add: is_alnum_def)

text \<open>
  C7. For a cid that passes \<^verbatim>\<open>isValidCID\<close>, \<^verbatim>\<open>getUpload\<close> and \<^verbatim>\<open>getFileUrl\<close> both
  return exactly \<^verbatim>\<open>https://{cid}.ipfs.w3s.link\<close>; for a cid that fails it,
  \<^verbatim>\<open>getFileUrl\<close> throws (an \<^verbatim>\<open>Error\<close> saying "Invalid CID format") while \<^verbatim>\<open>getUpload\<close>
  still returns that address.
\<close>

theorem getUpload_getFileUrl:
  "getUpload cid = ''https://'' @ cid @ ''.ipfs.w3s.link''
   \<and> (isValidCID cid \<longrightarrow> getFileUrl cid = Inr (''https://'' @ cid @ ''.ipfs.w3s.link''))
   \<and> (\<not> isValidCID cid \<longrightarrow> getFileUrl cid = Inl (ErrorInst ''Invalid CID format''))"
  by (simp add: getUpload_def getFileUrl_def)

theorem getUpload_getFileUrl_witness:
  "isValidCID (replicate 46 (CHR ''Q'')) \<and> \<not> isValidCID ''bafy-1''
   \<and> getFileUrl (replicate 46 (CHR ''Q'')) = Inr (getUpload (replicate 46 (CHR ''Q'')))
   \<and> getUpload ''bafy-1'' = ''https://bafy-1.ipfs.w3s.link''
   \<and> getFileUrl ''bafy-1'' = Inl (ErrorInst ''Invalid CID format'')"
proof -
  have v: "isValidCID (replicate 46 (CHR ''Q''))"
    by (simp add: isValidCID_def alnum_replicate_Q)
  have n: "\<not> isValidCID ''bafy-1''"
    by (simp add: isValidCID_def)
  from getUpload_getFileUrl [of "replicate 46 (CHR ''Q'')"] v
  have a: "getFileUrl (replicate 46 (CHR ''Q'')) = Inr (getUpload (replicate 46 (CHR ''Q'')))"
    by simp
  from getUpload_getFileUrl [of "''bafy-1''"] n
  have b: "getUpload ''bafy-1'' = ''https://bafy-1.ipfs.w3s.link''
           \<and> getFileUrl ''bafy-1'' = Inl (ErrorInst ''Invalid CID format'')"
    by simp
  from v n a b show ?thesis by blast
qed

subsection \<open>The probes that answer yes or no\<close>

text \<open>
  C8. \<^verbatim>\<open>fileExists\<close> and \<^verbatim>\<open>isValidToken\<close> never raise, whatever the HEAD request
  does: each returns a boolean, which is true exactly when the request returned a
  response of status 200, and false when the request threw.
\<close>

theorem fileExists_isValidToken:
  "(\<exists>b s'. fileExists E cid s = (Inr b, s'))
   \<and> (\<exists>b s'. isValidToken E token s = (Inr b, s'))
   \<and> (fst (fileExists E cid s) = Inr True \<longleftrightarrow>
        (\<exists>r x. axios E \<lparr>verb = HEAD, url = ''https://'' @ cid @ ''.ipfs.w3s.link'', req_headers = [], form = []\<rparr>
                  (outside s) = (Inr r, x) \<and> status r = 200))
   \<and> (fst (isValidToken E token s) = Inr True \<longleftrightarrow>
        (\<exists>r x. axios E \<lparr>verb = HEAD, url = ''https://api.web3.storage/user/uploads'',
                          req_headers = [(''Authorization'', ''Bearer '' @ token)], form = []\<rparr>
                  (outside s) = (Inr r, x) \<and> status r = 200))
   \<and> ((\<exists>e x. axios E \<lparr>verb = HEAD, url = ''https://'' @ cid @ ''.ipfs.w3s.link'', req_headers = [], form = []\<rparr>
                  (outside s) = (Inl e, x)) \<longrightarrow> fst (fileExists E cid s) = Inr False)
   \<and> ((\<exists>e x. axios E \<lparr>verb = HEAD, url = ''https://api.web3.storage/user/uploads'',
                          req_headers = [(''Authorization'', ''Bearer '' @ token)], form = []\<rparr>
                  (outside s) = (Inl e, x)) \<longrightarrow> fst (isValidToken E token s) = Inr False)"
  by (auto simp: fileExists_def isValidToken_def io_defs BASE_URL_replace_def Bearer_def Let_def
           split: prod.splits sum.splits)

theorem fileExists_isValidToken_witness:
  "fst (fileExists (small_env one_file (answer 200 JNull) []) ''bafy'' start) = Inr True
   \<and> fst (isValidToken (small_env one_file network_down []) ''tok'' start) = Inr False"
proof -
  let ?E = "small_env one_file (answer 200 JNull) []"
  let ?D = "small_env one_file network_down []"
  have a: "\<exists>r x. axios ?E \<lparr>verb = HEAD, url = ''https://'' @ ''bafy'' @ ''.ipfs.w3s.link'', req_headers = [], form = []\<rparr>
                  (outside start) = (Inr r, x) \<and> status r = 200"
    by (simp add: small_env_def answer_def)
  have b: "\<exists>e x. axios ?D \<lparr>verb = HEAD, url = ''https://api.web3.storage/user/uploads'',
                          req_headers = [(''Authorization'', ''Bearer '' @ ''tok'')], form = []\<rparr>
                  (outside start) = (Inl e, x)"
    by (simp add: small_env_def network_down_def)
  from fileExists_isValidToken [of ?E "''bafy''" start] a
  have c: "fst (fileExists ?E ''bafy'' start) = Inr True" by blast
  from fileExists_isValidToken [of ?D _ start "''tok''"] b
  have d: "fst (isValidToken ?D ''tok'' start) = Inr False" by blast
  from c d show ?thesis by simp
qed

subsection \<open>upload\<close>

lemma upload_returns: "\<exists>r s'. upload E filePath token s = (Inr r, s')"
  by (auto simp: upload_def upload_body_def io_defs split: prod.splits sum.splits)

text \<open>
  C3. \<^verbatim>\<open>upload\<close> never raises. When the file is read, its type detected and the POST
  returns a response, the result carries the serialized response body, with status code
  200 when the response has status 200 and with no status code otherwise. When reading
  the file, detecting its type or the POST throws, the result carries no status code and
  the message of the error (the fallback text if what was thrown is not an \<^verbatim>\<open>Error\<close>).
\<close>

theorem upload_never_raises:
  "(\<exists>r s'. upload E filePath token s = (Inr r, s'))
   \<and> (\<forall>content x1 mime x2 resp x3.
        readFileSync E filePath (outside s) = (Inr content, x1)
        \<and> fromBuffer E content x1 = (Inr mime, x2)
        \<and> axios E (upload_request E filePath token content mime) x2 = (Inr resp, x3)
        \<longrightarrow> upload E filePath token s =
              (Inr (if status resp = 200
                    then \<lparr>STATUS_CODE = Some 200, RESPONSE = JSON_stringify E (data resp)\<rparr>
                    else \<lparr>STATUS_CODE = None, RESPONSE = JSON_stringify E (data resp)\<rparr>),
               \<lparr>sent = sent s @ [upload_request E filePath token content mime], outside = x3\<rparr>))
   \<and> (\<forall>e x1. readFileSync E filePath (outside s) = (Inl e, x1)
        \<longrightarrow> upload E filePath token s =
              (Inr \<lparr>STATUS_CODE = None, RESPONSE = message_or ''Unknown error occurred'' e\<rparr>,
               \<lparr>sent = sent s, outside = x1\<rparr>))
   \<and> (\<forall>content x1 e x2.
        readFileSync E filePath (outside s) = (Inr content, x1)
        \<and> fromBuffer E content x1 = (Inl e, x2)
        \<longrightarrow> upload E filePath token s =
              (Inr \<lparr>STATUS_CODE = None, RESPONSE = message_or ''Unknown error occurred'' e\<rparr>,
               \<lparr>sent = sent s, outside = x2\<rparr>))
   \<and> (\<forall>content x1 mime x2 e x3.
        readFileSync E filePath (outside s) = (Inr content, x1)
        \<and> fromBuffer E content x1 = (Inr mime, x2)
        \<and> axios E (upload_request E filePath token content mime) x2 = (Inl e, x3)
        \<longrightarrow> upload E filePath token s =
              (Inr \<lparr>STATUS_CODE = None, RESPONSE = message_or ''Unknown error occurred'' e\<rparr>,
               \<lparr>sent = sent s @ [upload_request E filePath token content mime], outside = x3\<rparr>))
   \<and> (\<forall>m. message_or ''Unknown error occurred'' (ErrorInst m) = m)"
  by (auto simp: upload_def upload_body_def io_defs message_or_def split: prod.splits sum.splits)

theorem upload_never_raises_witness:
  "fst (upload (small_env one_file (answer 200 (JObj [(''cid'', JStr ''bafy'')])) []) ''/tmp/a.txt'' ''tok'' start)
     = Inr \<lparr>STATUS_CODE = Some 200, RESPONSE = render (JObj [(''cid'', JStr ''bafy'')])\<rparr>
   \<and> fst (upload (small_env one_file (answer 500 (JStr ''oops'')) []) ''/tmp/a.txt'' ''tok'' start)
     = Inr \<lparr>STATUS_CODE = None, RESPONSE = render (JStr ''oops'')\<rparr>
   \<and> fst (upload (small_env one_file network_down []) ''/tmp/a.txt'' ''tok'' start)
     = Inr \<lparr>STATUS_CODE = None, RESPONSE = ''Network Error''\<rparr>
   \<and> fst (upload (small_env one_file network_down []) ''/tmp/none'' ''tok'' start)
     = Inr \<lparr>STATUS_CODE = None, RESPONSE = ''ENOENT: no such file or directory''\<rparr>"
proof -
  let ?ok = "small_env one_file (answer 200 (JObj [(''cid'', JStr ''bafy'')])) []"
  let ?ko = "small_env one_file (answer 500 (JStr ''oops'')) []"
  let ?down = "small_env one_file network_down []"
  have a: "fst (upload ?ok ''/tmp/a.txt'' ''tok'' start)
             = Inr \<lparr>STATUS_CODE = Some 200, RESPONSE = render (JObj [(''cid'', JStr ''bafy'')])\<rparr>"
    using upload_never_raises [of ?ok "''/tmp/a.txt''" "''tok''" start]
    by (simp add: small_env_def one_file_def answer_def start_def)
  have b: "fst (upload ?ko ''/tmp/a.txt'' ''tok'' start)
             = Inr \<lparr>STATUS_CODE = None, RESPONSE = render (JStr ''oops'')\<rparr>"
    using upload_never_raises [of ?ko "''/tmp/a.txt''" "''tok''" start]
    by (simp add: small_env_def one_file_def answer_def start_def)
  have c: "fst (upload ?down ''/tmp/a.txt'' ''tok'' start)
             = Inr \<lparr>STATUS_CODE = None, RESPONSE = ''Network Error''\<rparr>"
    using upload_never_raises [of ?down "''/tmp/a.txt''" "''tok''" start]
    by (simp add: small_env_def one_file_def network_down_def start_def)
  have d: "fst (upload ?down ''/tmp/none'' ''tok'' start)
             = Inr \<lparr>STATUS_CODE = None, RESPONSE = ''ENOENT: no such file or directory''\<rparr>"
    using upload_never_raises [of ?down "''/tmp/none''" "''tok''" start]
    by (simp add: small_env_def one_file_def start_def)
  from a b c d show ?thesis by simp
qed

subsection \<open>uploadWithRetry\<close>

text \<open>
  C2. For a retry count of at least 1, \<^verbatim>\<open>uploadWithRetry\<close> invokes \<^verbatim>\<open>upload\<close> once, at
  the first attempt, and returns what that one call returned, in the state it left, with
  no backoff: \<^verbatim>\<open>upload\<close> never throws, so the first attempt counts as a success.
\<close>

theorem uploadWithRetry_single_upload:
  "1 \<le> maxRetries \<Longrightarrow>
     uploadWithRetry E filePath token maxRetries s = (upload E filePath token s, [Attempt 0])
     \<and> (\<exists>r s'. upload E filePath token s = (Inr r, s'))"
proof -
  assume m: "1 \<le> maxRetries"
  obtain r s' where u: "upload E filePath token s = (Inr r, s')"
    using upload_returns by blast
  from m u have "withRetry_loop (upload E filePath token) maxRetries 1000 0 None s []
                   = ((Inr r, s'), [Attempt 0])"
    by (subst withRetry_loop.simps) simp
  with u show ?thesis
    by (simp add: uploadWithRetry_def withRetry_def)
qed

theorem uploadWithRetry_single_upload_witness:
  "uploadWithRetry (small_env one_file network_down []) ''/tmp/a.txt'' ''tok'' 3 start
     = (upload (small_env one_file network_down []) ''/tmp/a.txt'' ''tok'' start, [Attempt 0])
   \<and> length (sent (snd (fst (uploadWithRetry (small_env one_file network_down []) ''/tmp/a.txt'' ''tok'' 3 start)))) = 1"
proof -
  have "(1::int) \<le> 3" by simp
  from uploadWithRetry_single_upload [OF this, of "small_env one_file network_down []" "''/tmp/a.txt''" "''tok''" start]
  show ?thesis
    by (simp add: upload_def upload_body_def io_defs small_env_def one_file_def network_down_def start_def)
qed

subsection \<open>getFileSize on a malformed cid\<close>

text \<open>
  C10. For a cid that fails \<^verbatim>\<open>isValidCID\<close>, \<^verbatim>\<open>getFileSize\<close> throws an \<^verbatim>\<open>Error\<close> whose
  message is the "Invalid CID format" of \<^verbatim>\<open>getFileUrl\<close> behind the prefix
  "Failed to get file size: ", and it leaves the world as it was: no request is sent.
\<close>

theorem getFileSize_invalid_cid:
  "\<not> isValidCID cid \<Longrightarrow>
     getFileSize E cid s = (Inl (ErrorInst ''Failed to get file size: Invalid CID format''), s)
     \<and> sent (snd (getFileSize E cid s)) = sent s"
  by (simp add: getFileSize_def getFileUrl_def io_defs message_or_def)

theorem getFileSize_invalid_cid_witness:
  "\<not> isValidCID ''not a cid''
   \<and> getFileSize (small_env one_file (answer 200 JNull) []) ''not a cid'' start
       = (Inl (ErrorInst ''Failed to get file size: Invalid CID format''), start)
   \<and> sent (snd (getFileSize (small_env one_file (answer 200 JNull) []) ''not a cid'' start)) = []"
proof -
  have n: "\<not> isValidCID ''not a cid''"
    by (simp add: isValidCID_def)
  from getFileSize_invalid_cid [OF n, of "small_env one_file (answer 200 JNull) []" start] n
  show ?thesis by (simp add: start_def)
qed

subsection \<open>withRetry\<close>

text \<open>
  C9. With a retry count of zero or less, \<^verbatim>\<open>withRetry\<close> never invokes the operation:
  the trace is empty, the state is untouched, and the call throws the initial
  \<^verbatim>\<open>null\<close> of \<^verbatim>\<open>lastError\<close>, which is not an \<^verbatim>\<open>Error\<close>.
\<close>

theorem withRetry_no_attempts:
  "maxRetries \<le> 0 \<Longrightarrow>
     withRetry fn maxRetries delay s = ((Inl ThrownNull, s), []) \<and> \<not> instanceof_Error ThrownNull"
  by (simp add: withRetry_def withRetry_loop.simps throw_lastError_def instanceof_Error_def)

theorem withRetry_no_attempts_witness:
  "withRetry (scripted (\<lambda>n. Inr n)) 0 1000 (0::nat) = ((Inl ThrownNull, 0), [])
   \<and> withRetry (scripted (\<lambda>n. Inr n)) (- 2) 1000 (0::nat) = ((Inl ThrownNull, 0), [])"
  using withRetry_no_attempts [of 0 "scripted (\<lambda>n. Inr n)" 1000 "0::nat"]
        withRetry_no_attempts [of "- 2" "scripted (\<lambda>n. Inr n)" 1000 "0::nat"]
  by simp

subsection \<open>withRetry: attempts and backoff\<close>

text \<open>
  A run of \<open>k\<close> failing attempts from loop index \<open>i\<close>, with room for one more attempt
  after them, takes the loop to index \<open>i + k\<close>: each failure is followed by its
  backoff, and the last error kept is the last failure.
\<close>

lemma withRetry_loop_failures:
  assumes fails: "\<forall>j<k. fn (st (i + j)) = (Inl (er (i + j)), st (Suc (i + j)))"
    and room: "int (i + k) < maxRetries"
  shows "withRetry_loop fn maxRetries delay i lastError (st i) tr =
         withRetry_loop fn maxRetries delay (i + k)
           (if k = 0 then lastError else Some (as_Error (er (i + k - 1)))) (st (i + k))
           (tr @ concat (map (\<lambda>j. [Attempt j, Backoff (delay * 2 ^ j)]) [i..<i + k]))"
  using fails room
proof (induction k)
  case 0
  then show ?case by simp
next
  case (Suc k)
  have step: "fn (st (i + k)) = (Inl (er (i + k)), st (Suc (i + k)))"
    using Suc.prems(1) by simp
  have before: "int (i + k) < maxRetries - 1"
    using Suc.prems(2) by simp
  have "withRetry_loop fn maxRetries delay i lastError (st i) tr =
        withRetry_loop fn maxRetries delay (i + k)
           (if k = 0 then lastError else Some (as_Error (er (i + k - 1)))) (st (i + k))
           (tr @ concat (map (\<lambda>j. [Attempt j, Backoff (delay * 2 ^ j)]) [i..<i + k]))"
    using Suc by simp
  also have "\<dots> = withRetry_loop fn maxRetries delay (Suc (i + k))
           (Some (as_Error (er (i + k)))) (st (Suc (i + k)))
           ((tr @ concat (map (\<lambda>j. [Attempt j, Backoff (delay * 2 ^ j)]) [i..<i + k]))
              @ [Attempt (i + k), Backoff (delay * 2 ^ (i + k))])"
    using step before by (subst withRetry_loop.simps) simp
  finally show ?case by simp
qed

lemma withRetry_first_success:
  assumes lt: "int k < maxRetries"
    and fails: "\<forall>j<k. fn (st j) = (Inl (er j), st (Suc j))"
    and ok: "fn (st k) = (Inr v, s')"
  shows "withRetry fn maxRetries delay (st 0) =
           ((Inr v, s'), concat (map (\<lambda>j. [Attempt j, Backoff (delay * 2 ^ j)]) [0..<k]) @ [Attempt k])"
proof -
  have f: "\<forall>j<k. fn (st (0 + j)) = (Inl (er (0 + j)), st (Suc (0 + j)))"
    using fails by simp
  have r: "int (0 + k) < maxRetries"
    using lt by simp
  have "withRetry fn maxRetries delay (st 0) =
        withRetry_loop fn maxRetries delay (0 + k)
          (if k = 0 then None else Some (as_Error (er (0 + k - 1)))) (st (0 + k))
          ([] @ concat (map (\<lambda>j. [Attempt j, Backoff (delay * 2 ^ j)]) [0..<0 + k]))"
    unfolding withRetry_def by (rule withRetry_loop_failures [OF f r])
  also have "\<dots> = ((Inr v, s'), concat (map (\<lambda>j. [Attempt j, Backoff (delay * 2 ^ j)]) [0..<k]) @ [Attempt k])"
    by (subst withRetry_loop.simps) (simp add: lt ok)
  finally show ?thesis .
qed

lemma withRetry_all_fail:
  assumes "maxRetries = int (Suc k)"
    and "\<forall>j\<le>k. fn (st j) = (Inl (er j), st (Suc j))"
  shows "withRetry fn maxRetries delay (st 0) =
           ((Inl (ErrorInst (as_Error (er k))), st (Suc k)),
            concat (map (\<lambda>j. [Attempt j, Backoff (delay * 2 ^ j)]) [0..<k]) @ [Attempt k])"
proof -
  have "withRetry fn maxRetries delay (st 0) =
        withRetry_loop fn maxRetries delay k
          (if k = 0 then None else Some (as_Error (er (k - 1)))) (st k)
          (concat (map (\<lambda>j. [Attempt j, Backoff (delay * 2 ^ j)]) [0..<k]))"
    unfolding withRetry_def
    using withRetry_loop_failures [of k fn st 0 er maxRetries delay None "[]"] assms by simp
  also have "\<dots> = withRetry_loop fn maxRetries delay (Suc k) (Some (as_Error (er k))) (st (Suc k))
          (concat (map (\<lambda>j. [Attempt j, Backoff (delay * 2 ^ j)]) [0..<k]) @ [Attempt k])"
    using assms by (subst withRetry_loop.simps) simp
  also have "\<dots> = ((Inl (ErrorInst (as_Error (er k))), st (Suc k)),
            concat (map (\<lambda>j. [Attempt j, Backoff (delay * 2 ^ j)]) [0..<k]) @ [Attempt k])"
    using assms(1) by (subst withRetry_loop.simps) (simp add: throw_lastError_def)
  finally show ?thesis .
qed

lemma withRetry_fail_fail_ok:
  assumes "fn s0 = (Inl e0, s1)" "fn s1 = (Inl e1, s2)" "fn s2 = (Inr v, s3)"
  shows "withRetry fn 3 delay s0 =
           ((Inr v, s3), [Attempt 0, Backoff delay, Attempt 1, Backoff (2 * delay), Attempt 2])"
  using assms by (simp add: withRetry_def withRetry_loop.simps)

lemma withRetry_fail_thrice:
  assumes "fn s0 = (Inl e0, s1)" "fn s1 = (Inl e1, s2)" "fn s2 = (Inl e2, s3)"
  shows "withRetry fn 3 delay s0 =
           ((Inl (ErrorInst (as_Error e2)), s3),
            [Attempt 0, Backoff delay, Attempt 1, Backoff (2 * delay), Attempt 2])"
  using assms by (simp add: withRetry_def withRetry_loop.simps throw_lastError_def)

text \<open>
  C4. \<^verbatim>\<open>withRetry\<close> returns the value of the first attempt that does not fail, at once:
  the trace ends with that attempt. After a failing attempt \<open>j\<close> that is not the last one
  allowed it waits \<open>delay * 2 ^ j\<close> and tries again. After the last allowed attempt fails
  it throws the failure it kept from that attempt (the error itself when it is an
  \<^verbatim>\<open>Error\<close>), with no wait after it. With three attempts allowed, an operation that fails
  twice and then succeeds gives its value after waiting \<open>delay + 2 * delay\<close>, and an
  operation that fails three times is invoked three times before its last failure is
  thrown. \<open>st j\<close> is the state the \<open>j\<close>-th attempt starts in and \<open>er j\<close> what it throws.
\<close>

theorem withRetry_backoff:
  "(\<forall>k st er v s'.
      int k < maxRetries \<and> (\<forall>j<k. fn (st j) = (Inl (er j), st (Suc j))) \<and> fn (st k) = (Inr v, s')
      \<longrightarrow> withRetry fn maxRetries delay (st 0) =
            ((Inr v, s'), concat (map (\<lambda>j. [Attempt j, Backoff (delay * 2 ^ j)]) [0..<k]) @ [Attempt k]))
   \<and> (\<forall>k st er.
      maxRetries = int (Suc k) \<and> (\<forall>j\<le>k. fn (st j) = (Inl (er j), st (Suc j)))
      \<longrightarrow> withRetry fn maxRetries delay (st 0) =
            ((Inl (ErrorInst (as_Error (er k))), st (Suc k)),
             concat (map (\<lambda>j. [Attempt j, Backoff (delay * 2 ^ j)]) [0..<k]) @ [Attempt k]))
   \<and> (\<forall>s0 e0 s1 e1 s2 v s3.
      fn s0 = (Inl e0, s1) \<and> fn s1 = (Inl e1, s2) \<and> fn s2 = (Inr v, s3)
      \<longrightarrow> withRetry fn 3 delay s0 =
            ((Inr v, s3), [Attempt 0, Backoff delay, Attempt 1, Backoff (2 * delay), Attempt 2])
          \<and> total_wait (snd (withRetry fn 3 delay s0)) = delay + 2 * delay)
   \<and> (\<forall>s0 e0 s1 e1 s2 e2 s3.
      fn s0 = (Inl e0, s1) \<and> fn s1 = (Inl e1, s2) \<and> fn s2 = (Inl e2, s3)
      \<longrightarrow> withRetry fn 3 delay s0 =
            ((Inl (ErrorInst (as_Error e2)), s3),
             [Attempt 0, Backoff delay, Attempt 1, Backoff (2 * delay), Attempt 2]))
   \<and> (\<forall>m. as_Error (ErrorInst m) = m)"
proof (intro conjI allI impI)
  fix k st er v s'
  assume "int k < maxRetries \<and> (\<forall>j<k. fn (st j) = (Inl (er j), st (Suc j))) \<and> fn (st k) = (Inr v, s')"
  then show "withRetry fn maxRetries delay (st 0) =
            ((Inr v, s'), concat (map (\<lambda>j. [Attempt j, Backoff (delay * 2 ^ j)]) [0..<k]) @ [Attempt k])"
    using withRetry_first_success [of k maxRetries fn st er v s' delay] by blast
next
  fix k st er
  assume "maxRetries = int (Suc k) \<and> (\<forall>j\<le>k. fn (st j) = (Inl (er j), st (Suc j)))"
  then show "withRetry fn maxRetries delay (st 0) =
            ((Inl (ErrorInst (as_Error (er k))), st (Suc k)),
             concat (map (\<lambda>j. [Attempt j, Backoff (delay * 2 ^ j)]) [0..<k]) @ [Attempt k])"
    using withRetry_all_fail [of maxRetries k fn st er delay] by blast
next
  fix s0 e0 s1 e1 s2 v s3
  assume a: "fn s0 = (Inl e0, s1) \<and> fn s1 = (Inl e1, s2) \<and> fn s2 = (Inr v, s3)"
  then show r: "withRetry fn 3 delay s0 =
            ((Inr v, s3), [Attempt 0, Backoff delay, Attempt 1, Backoff (2 * delay), Attempt 2])"
    using withRetry_fail_fail_ok [of fn s0 e0 s1 e1 s2 v s3 delay] by blast
  show "total_wait (snd (withRetry fn 3 delay s0)) = delay + 2 * delay"
    by (simp add: r)
next
  fix s0 e0 s1 e1 s2 e2 s3
  assume "fn s0 = (Inl e0, s1) \<and> fn s1 = (Inl e1, s2) \<and> fn s2 = (Inl e2, s3)"
  then show "withRetry fn 3 delay s0 =
            ((Inl (ErrorInst (as_Error e2)), s3),
             [Attempt 0, Backoff delay, Attempt 1, Backoff (2 * delay), Attempt 2])"
    using withRetry_fail_thrice [of fn s0 e0 s1 e1 s2 e2 s3 delay] by blast
next
  fix m
  show "as_Error (ErrorInst m) = m"
    by (simp add: as_Error_def instanceof_Error_def message_or_def)
qed

theorem withRetry_backoff_witness:
  "withRetry (scripted flaky) 3 1000 0 =
     ((Inr ''done'', 3), [Attempt 0, Backoff 1000, Attempt 1, Backoff 2000, Attempt 2])
   \<and> total_wait (snd (withRetry (scripted flaky) 3 1000 0)) = 3000
   \<and> withRetry (scripted hopeless) 3 1000 0 =
     ((Inl (ErrorInst ''2''), 3), [Attempt 0, Backoff 1000, Attempt 1, Backoff 2000, Attempt 2])"
proof -
  have a: "scripted flaky 0 = (Inl (ErrorInst ''ECONNRESET''), 1)
           \<and> scripted flaky 1 = (Inl (ErrorInst ''ECONNRESET''), 2)
           \<and> scripted flaky 2 = (Inr ''done'', 3)"
    by (simp add: scripted_def flaky_def)
  have b: "scripted hopeless 0 = (Inl (ThrownOther ''0''), 1)
           \<and> scripted hopeless 1 = (Inl (ThrownOther ''1''), 2)
           \<and> scripted hopeless 2 = (Inl (ThrownOther ''2''), 3)"
    by (simp add: scripted_def hopeless_def show_nat.simps digit_char_def)
  have c: "as_Error (ThrownOther ''2'') = ''2''"
    by (simp add: as_Error_def instanceof_Error_def String_of_thrown_def)
  have all: "(\<forall>s0 e0 s1 e1 s2 v s3.
      scripted flaky s0 = (Inl e0, s1) \<and> scripted flaky s1 = (Inl e1, s2) \<and> scripted flaky s2 = (Inr v, s3)
      \<longrightarrow> withRetry (scripted flaky) 3 1000 s0 =
            ((Inr v, s3), [Attempt 0, Backoff 1000, Attempt 1, Backoff (2 * 1000), Attempt 2])
          \<and> total_wait (snd (withRetry (scripted flaky) 3 1000 s0)) = 1000 + 2 * 1000)"
    using withRetry_backoff [of 3 "scripted flaky" 1000] by blast
  have d: "withRetry (scripted flaky) 3 1000 0 =
     ((Inr ''done'', 3), [Attempt 0, Backoff 1000, Attempt 1, Backoff (2 * 1000), Attempt 2])
   \<and> total_wait (snd (withRetry (scripted flaky) 3 1000 0)) = 1000 + 2 * 1000"
    using all a by blast
  have all': "(\<forall>s0 e0 s1 e1 s2 e2 s3.
      scripted hopeless s0 = (Inl e0, s1) \<and> scripted hopeless s1 = (Inl e1, s2)
      \<and> scripted hopeless s2 = (Inl e2, s3)
      \<longrightarrow> withRetry (scripted hopeless) 3 1000 s0 =
            ((Inl (ErrorInst (as_Error e2)), s3),
             [Attempt 0, Backoff 1000, Attempt 1, Backoff (2 * 1000), Attempt 2]))"
    using withRetry_backoff [of 3 "scripted hopeless" 1000] by blast
  have e: "withRetry (scripted hopeless) 3 1000 0 =
     ((Inl (ErrorInst (as_Error (ThrownOther ''2''))), 3),
      [Attempt 0, Backoff 1000, Attempt 1, Backoff (2 * 1000), Attempt 2])"
    using all' b by blast
  from d e c show ?thesis by simp
qed

subsection \<open>uploadMultiple\<close>

text \<open>The loop that reads the files sends nothing, and names each part after its file.\<close>

lemma append_files_sent: "append_files E filePaths formData s = (r, s1) \<Longrightarrow> sent s1 = sent s"
proof (induction filePaths arbitrary: formData s)
  case Nil
  then show ?case by (simp add: io_defs)
next
  case (Cons filePath rest)
  then show ?case
    by (auto simp: io_defs Let_def split: prod.splits sum.splits)
qed

lemma append_files_names:
  "append_files E filePaths formData s = (Inr parts, s1) \<Longrightarrow>
     map fst parts = map fst formData @ map (basename E) filePaths"
proof (induction filePaths arbitrary: formData s)
  case Nil
  then show ?case by (simp add: io_defs)
next
  case (Cons filePath rest)
  then show ?case
    by (fastforce simp: io_defs Let_def split: prod.splits sum.splits)
qed

text \<open>
  The merged object keeps \<^verbatim>\<open>fileName\<close> when the response body has no property of
  that name; a body that has one overwrites it, since the body is spread last.
\<close>

lemma set_property_other: "k' \<noteq> k \<Longrightarrow> map_of (set_property k v obj) k' = map_of obj k'"
  by (induction obj) auto

lemma foldl_set_property_other:
  "k' \<notin> fst ` set props \<Longrightarrow>
     map_of (foldl (\<lambda>obj (k, v). set_property k v obj) obj props) k' = map_of obj k'"
proof (induction props arbitrary: obj)
  case Nil
  then show ?case by simp
next
  case (Cons p props)
  obtain k v where p: "p = (k, v)" by (cases p)
  with Cons.prems have "k' \<noteq> k" "k' \<notin> fst ` set props" by auto
  with Cons.IH [of "set_property k v obj"] p show ?case
    by (simp add: set_property_other)
qed

lemma with_fileName_keeps:
  "''fileName'' \<notin> fst ` set (own_properties body) \<Longrightarrow>
     \<exists>kvs. with_fileName name body = JObj kvs \<and> map_of kvs ''fileName'' = Some (JStr name)"
  by (simp add: with_fileName_def foldl_set_property_other)

lemma with_fileName_overwritten:
  "with_fileName ''a.txt'' (JObj [(''fileName'', JStr ''other''), (''cid'', JStr ''bafy'')])
     = JObj [(''fileName'', JStr ''other''), (''cid'', JStr ''bafy'')]"
  by (simp add: with_fileName_def own_properties_def)

lemma uploadMultiple_returns:
  "\<exists>rs s'. uploadMultiple E filePaths token s = (Inr rs, s') \<and> length rs = length filePaths"
  by (auto simp: uploadMultiple_def io_defs Let_def split: prod.splits sum.splits)

lemma show_int_500: "show_int 500 = ''500''"
  by (simp add: show_int_def show_nat.simps digit_char_def)

text \<open>
  C1, as the spec states it, has the call throw when the POST returns a status other
  than 200. The \<^verbatim>\<open>throw\<close> stands inside the \<^verbatim>\<open>try\<close> block, so the \<^verbatim>\<open>catch\<close> of the
  same function takes it: against a server that answers 500 the call returns one result
  per path, each with the message of that error and no status code.
\<close>

theorem uploadMultiple_500_returns:
  "uploadMultiple (small_env one_file (answer 500 JNull) []) [''/tmp/a.txt'', ''/tmp/a.txt''] ''tok'' start
     = (Inr [\<lparr>STATUS_CODE = None, RESPONSE = ''Upload failed with status: 500''\<rparr>,
             \<lparr>STATUS_CODE = None, RESPONSE = ''Upload failed with status: 500''\<rparr>],
        \<lparr>sent = [\<lparr>verb = POST, url = ''https://api.web3.storage/upload'',
                   req_headers = [(''Authorization'', ''Bearer tok'')],
                   form = [(''a.txt'', [1, 2, 3], ''a.txt''), (''a.txt'', [1, 2, 3], ''a.txt'')]\<rparr>],
          outside = 1\<rparr>)"
  by (simp add: uploadMultiple_def io_defs Let_def BASE_URL_replace_def Bearer_def message_or_def
        small_env_def one_file_def answer_def start_def last_segment_def show_int_500)

text \<open>
  C1, amended. \<^verbatim>\<open>uploadMultiple\<close> never throws and returns one result per input path.
  When all files are read and the single POST (one part per file, named by its base
  name) returns status 200, each result has status code 200 and the serialization of the
  response body's properties written over \<^verbatim>\<open>{fileName: base name}\<close>, in which
  \<^verbatim>\<open>fileName\<close> is the base name unless the body has a property of that name. When the
  POST returns another status, every result has no status code and the message
  "Upload failed with status: " followed by the status. When reading a file, detecting
  its type or the POST throws, every result has no status code and the same message,
  that of the error.
\<close>

theorem uploadMultiple_results:
  "(\<exists>rs s'. uploadMultiple E filePaths token s = (Inr rs, s') \<and> length rs = length filePaths)
   \<and> (\<forall>formData s1 resp x.
        append_files E filePaths [] s = (Inr formData, s1)
        \<and> axios E \<lparr>verb = POST, url = ''https://api.web3.storage/upload'',
                     req_headers = [(''Authorization'', ''Bearer '' @ token)], form = formData\<rparr>
             (outside s1) = (Inr resp, x)
        \<longrightarrow> fst (uploadMultiple E filePaths token s) =
              Inr (if status resp = 200
                   then map (\<lambda>filePath.
                          \<lparr>STATUS_CODE = Some 200,
                           RESPONSE = JSON_stringify E (with_fileName (basename E filePath) (data resp))\<rparr>)
                          filePaths
                   else map (\<lambda>filePath.
                          \<lparr>STATUS_CODE = None,
                           RESPONSE = ''Upload failed with status: '' @ show_int (status resp)\<rparr>)
                          filePaths)
            \<and> sent (snd (uploadMultiple E filePaths token s)) =
                sent s @ [\<lparr>verb = POST, url = ''https://api.web3.storage/upload'',
                           req_headers = [(''Authorization'', ''Bearer '' @ token)], form = formData\<rparr>]
            \<and> map fst formData = map (basename E) filePaths)
   \<and> (\<forall>e s1.
        append_files E filePaths [] s = (Inl e, s1)
        \<longrightarrow> uploadMultiple E filePaths token s =
              (Inr (map (\<lambda>filePath.
                      \<lparr>STATUS_CODE = None, RESPONSE = message_or ''Unknown error occurred'' e\<rparr>)
                      filePaths), s1)
            \<and> sent s1 = sent s)
   \<and> (\<forall>formData s1 e x.
        append_files E filePaths [] s = (Inr formData, s1)
        \<and> axios E \<lparr>verb = POST, url = ''https://api.web3.storage/upload'',
                     req_headers = [(''Authorization'', ''Bearer '' @ token)], form = formData\<rparr>
             (outside s1) = (Inl e, x)
        \<longrightarrow> fst (uploadMultiple E filePaths token s) =
              Inr (map (\<lambda>filePath.
                      \<lparr>STATUS_CODE = None, RESPONSE = message_or ''Unknown error occurred'' e\<rparr>)
                      filePaths))
   \<and> (\<forall>name body.
        ''fileName'' \<notin> fst ` set (own_properties body)
        \<longrightarrow> (\<exists>kvs. with_fileName name body = JObj kvs \<and> map_of kvs ''fileName'' = Some (JStr name)))"
proof (intro conjI allI impI)
  show "\<exists>rs s'. uploadMultiple E filePaths token s = (Inr rs, s') \<and> length rs = length filePaths"
    by (rule uploadMultiple_returns)
next
  fix formData s1 resp x
  assume a: "append_files E filePaths [] s = (Inr formData, s1)
        \<and> axios E \<lparr>verb = POST, url = ''https://api.web3.storage/upload'',
                     req_headers = [(''Authorization'', ''Bearer '' @ token)], form = formData\<rparr>
             (outside s1) = (Inr resp, x)"
  then have s1: "sent s1 = sent s"
    using append_files_sent by blast
  from a show "fst (uploadMultiple E filePaths token s) =
              Inr (if status resp = 200
                   then map (\<lambda>filePath.
                          \<lparr>STATUS_CODE = Some 200,
                           RESPONSE = JSON_stringify E (with_fileName (basename E filePath) (data resp))\<rparr>)
                          filePaths
                   else map (\<lambda>filePath.
                          \<lparr>STATUS_CODE = None,
                           RESPONSE = ''Upload failed with status: '' @ show_int (status resp)\<rparr>)
                          filePaths)"
    by (simp add: uploadMultiple_def io_defs Let_def BASE_URL_replace_def Bearer_def message_or_def)
  from a s1 show "sent (snd (uploadMultiple E filePaths token s)) =
                sent s @ [\<lparr>verb = POST, url = ''https://api.web3.storage/upload'',
                           req_headers = [(''Authorization'', ''Bearer '' @ token)], form = formData\<rparr>]"
    by (simp add: uploadMultiple_def io_defs Let_def BASE_URL_replace_def Bearer_def)
  from a show "map fst formData = map (basename E) filePaths"
    using append_files_names [of E filePaths "[]" s formData s1] by simp
next
  fix e s1
  assume a: "append_files E filePaths [] s = (Inl e, s1)"
  then show "uploadMultiple E filePaths token s =
              (Inr (map (\<lambda>filePath.
                      \<lparr>STATUS_CODE = None, RESPONSE = message_or ''Unknown error occurred'' e\<rparr>)
                      filePaths), s1)"
    by (simp add: uploadMultiple_def io_defs)
  from a show "sent s1 = sent s"
    using append_files_sent by blast
next
  fix formData s1 e x
  assume "append_files E filePaths [] s = (Inr formData, s1)
        \<and> axios E \<lparr>verb = POST, url = ''https://api.web3.storage/upload'',
                     req_headers = [(''Authorization'', ''Bearer '' @ token)], form = formData\<rparr>
             (outside s1) = (Inl e, x)"
  then show "fst (uploadMultiple E filePaths token s) =
              Inr (map (\<lambda>filePath.
                      \<lparr>STATUS_CODE = None, RESPONSE = message_or ''Unknown error occurred'' e\<rparr>)
                      filePaths)"
    by (simp add: uploadMultiple_def io_defs Let_def BASE_URL_replace_def Bearer_def)
next
  fix name body
  assume "''fileName'' \<notin> fst ` set (own_properties body)"
  then show "\<exists>kvs. with_fileName name body = JObj kvs \<and> map_of kvs ''fileName'' = Some (JStr name)"
    by (rule with_fileName_keeps)
qed

theorem uploadMultiple_results_witness:
  "fst (uploadMultiple (small_env one_file (answer 200 (JObj [(''cid'', JStr ''bafy'')])) [])
          [''/tmp/a.txt''] ''tok'' start)
     = Inr [\<lparr>STATUS_CODE = Some 200,
             RESPONSE = render (JObj [(''fileName'', JStr ''a.txt''), (''cid'', JStr ''bafy'')])\<rparr>]
   \<and> fst (uploadMultiple (small_env one_file network_down []) [''/tmp/a.txt'', ''/tmp/none''] ''tok'' start)
     = Inr [\<lparr>STATUS_CODE = None, RESPONSE = ''ENOENT: no such file or directory''\<rparr>,
            \<lparr>STATUS_CODE = None, RESPONSE = ''ENOENT: no such file or directory''\<rparr>]"
proof -
  let ?E = "small_env one_file (answer 200 (JObj [(''cid'', JStr ''bafy'')])) []"
  let ?D = "small_env one_file network_down []"
  have files: "append_files ?E [''/tmp/a.txt''] [] start = (Inr [(''a.txt'', [1, 2, 3], ''a.txt'')], start)"
    by (simp add: io_defs Let_def small_env_def one_file_def start_def last_segment_def)
  have post: "axios ?E \<lparr>verb = POST, url = ''https://api.web3.storage/upload'',
                     req_headers = [(''Authorization'', ''Bearer '' @ ''tok'')],
                     form = [(''a.txt'', [1, 2, 3], ''a.txt'')]\<rparr>
             (outside start) = (Inr \<lparr>status = 200, data = JObj [(''cid'', JStr ''bafy'')], resp_headers = []\<rparr>, 1)"
    by (simp add: small_env_def answer_def start_def)
  have obj: "with_fileName ''a.txt'' (JObj [(''cid'', JStr ''bafy'')])
               = JObj [(''fileName'', JStr ''a.txt''), (''cid'', JStr ''bafy'')]"
    by (simp add: with_fileName_def own_properties_def)
  have nofile: "append_files ?D [''/tmp/a.txt'', ''/tmp/none''] [] start
                  = (Inl (ErrorInst ''ENOENT: no such file or directory''), start)"
    by (simp add: io_defs Let_def small_env_def one_file_def start_def last_segment_def)
  from uploadMultiple_results [of ?E "[''/tmp/a.txt'']" "''tok''" start] files post
  have a: "fst (uploadMultiple ?E [''/tmp/a.txt''] ''tok'' start)
     = Inr [\<lparr>STATUS_CODE = Some 200,
             RESPONSE = JSON_stringify ?E (with_fileName (basename ?E ''/tmp/a.txt'') (JObj [(''cid'', JStr ''bafy'')]))\<rparr>]"
    by fastforce
  have b: "JSON_stringify ?E = render" "basename ?E ''/tmp/a.txt'' = ''a.txt''"
    by (simp_all add: small_env_def last_segment_def)
  from uploadMultiple_results [of ?D "[''/tmp/a.txt'', ''/tmp/none'']" "''tok''" start] nofile
  have c: "fst (uploadMultiple ?D [''/tmp/a.txt'', ''/tmp/none''] ''tok'' start)
     = Inr [\<lparr>STATUS_CODE = None, RESPONSE = ''ENOENT: no such file or directory''\<rparr>,
            \<lparr>STATUS_CODE = None, RESPONSE = ''ENOENT: no such file or directory''\<rparr>]"
    by (simp add: message_or_def)
  from a b obj c show ?thesis by simp
qed

subsection \<open>getTotalStorageUsed\<close>

text \<open>
  \<^verbatim>\<open>userUploads\<close> never throws. Over elements that are not \<^verbatim>\<open>null\<close> and whose size
  is a number, missing or falsy, the \<^verbatim>\<open>reduce\<close> stays a number: the sum of the
  numbers.
\<close>

lemma userUploads_returns: "\<exists>uploads s1. userUploads E token s = (Inr uploads, s1)"
  by (auto simp: userUploads_def io_defs Let_def split: prod.splits sum.splits)

lemma sized_step:
  "sized item \<Longrightarrow>
     \<exists>sz. get_size item = Inr sz \<and> js_plus (TNum a) (or_zero sz) = TNum (a + size_or_zero item)"
  by (auto simp: sized_def get_size_def js_plus_def or_zero_def size_or_zero_def truthy_def
           split: json.splits option.splits if_splits)

lemma reduce_sizes_sum:
  "list_all sized items \<Longrightarrow>
     reduce_sizes (TNum a) items = Inr (TNum (a + sum_list (map size_or_zero items)))"
proof (induction items arbitrary: a)
  case Nil
  then show ?case by simp
next
  case (Cons item items)
  then have "sized item" "list_all sized items" by simp_all
  from sized_step [OF this(1), of a] obtain sz where
    sz: "get_size item = Inr sz" "js_plus (TNum a) (or_zero sz) = TNum (a + size_or_zero item)"
    by blast
  with Cons.IH [OF \<open>list_all sized items\<close>, of "a + size_or_zero item"] show ?case
    by (simp add: add.assoc)
qed

lemma sum_sizes_nonneg:
  "list_all (\<lambda>item. 0 \<le> size_or_zero item) items \<Longrightarrow> 0 \<le> sum_list (map size_or_zero items)"
  by (induction items) auto

lemma getTotalStorageUsed_not_array:
  assumes "userUploads E token s = (Inr uploads, s1)" "JSON_parse E uploads = Inr parsed"
    and "\<forall>items. parsed \<noteq> JArr items"
  shows "getTotalStorageUsed E token s = (Inr ''0 GB'', s1)"
  using assms by (cases parsed) (simp_all add: getTotalStorageUsed_def io_defs)

lemma getTotalStorageUsed_array:
  assumes "userUploads E token s = (Inr uploads, s1)" "JSON_parse E uploads = Inr (JArr items)"
    and "list_all sized items" "0 \<le> sum_list (map size_or_zero items)"
  shows "getTotalStorageUsed E token s =
           (Inr (fixed2 (hundredths (nat (sum_list (map size_or_zero items))) (1024 ^ 3)) @ '' GB''), s1)"
  using assms
  by (simp add: getTotalStorageUsed_def io_defs reduce_sizes_sum ToNumber_def toFixed2_over_def Let_def)

lemma two_gigabytes: "fixed2 (hundredths 2147483648 1073741824) = ''2.00''"
  by (simp add: fixed2_def hundredths_def two_digits_def show_nat.simps digit_char_def)

text \<open>
  C5, as the spec states it, has a size that is not a number count as 0. Only a missing
  or falsy size does: against an uploads list whose one element has the size
  \<^verbatim>\<open>"abc"\<close>, the sum is the text \<^verbatim>\<open>"0abc"\<close>, which is not a number, and the call
  returns "NaN GB" where the claim has "0.00 GB". A \<^verbatim>\<open>null\<close> element makes the call
  throw.
\<close>

theorem getTotalStorageUsed_text_size:
  "fst (getTotalStorageUsed
          (small_env one_file (answer 200 (JArr [JObj [(''size'', JStr ''abc'')]]))
             [JArr [JObj [(''size'', JStr ''abc'')]]])
          ''tok'' start) = Inr ''NaN GB''"
  by (simp add: getTotalStorageUsed_def userUploads_def io_defs Let_def BASE_URL_replace_def Bearer_def
        small_env_def answer_def start_def parse_known_def get_size_def or_zero_def truthy_def
        js_plus_def show_int_def show_nat.simps digit_char_def ToNumber_def toFixed2_over_def)

lemma getTotalStorageUsed_null_element:
  "fst (getTotalStorageUsed (small_env one_file (answer 200 (JArr [JNull])) [JArr [JNull]]) ''tok'' start)
     = Inl (ErrorInst ''Failed to get storage usage: Cannot read properties of null (reading 'size')'')"
  by (simp add: getTotalStorageUsed_def userUploads_def io_defs Let_def BASE_URL_replace_def Bearer_def
        small_env_def answer_def start_def parse_known_def get_size_def null_size_message_def
        message_or_def)

text \<open>
  C5, amended. \<^verbatim>\<open>getTotalStorageUsed\<close> parses the text \<^verbatim>\<open>userUploads\<close> returns. When
  the parsed value is not an array it returns "0 GB". When it is an array whose elements
  are not \<^verbatim>\<open>null\<close> and have sizes that are numbers (byte counts: not negative, their sum
  below \<open>2 ^ 53\<close>), missing or falsy, it returns the sum of the numbers, the missing and
  falsy sizes counting 0, divided by \<open>1024 ^ 3\<close>, with exactly two decimal places, and
  " GB". For two sizes of 1073741824 that is "2.00 GB".
\<close>

theorem getTotalStorageUsed_sum:
  "(\<exists>uploads s1. userUploads E token s = (Inr uploads, s1))
   \<and> (\<forall>uploads s1 parsed.
        userUploads E token s = (Inr uploads, s1) \<and> JSON_parse E uploads = Inr parsed
        \<and> (\<forall>items. parsed \<noteq> JArr items)
        \<longrightarrow> getTotalStorageUsed E token s = (Inr ''0 GB'', s1))
   \<and> (\<forall>uploads s1 items.
        userUploads E token s = (Inr uploads, s1) \<and> JSON_parse E uploads = Inr (JArr items)
        \<and> list_all sized items
        \<and> list_all (\<lambda>item. 0 \<le> size_or_zero item) items
        \<and> sum_list (map size_or_zero items) < 2 ^ 53
        \<longrightarrow> getTotalStorageUsed E token s =
              (Inr (fixed2 (hundredths (nat (sum_list (map size_or_zero items))) (1024 ^ 3)) @ '' GB''), s1))
   \<and> (\<forall>uploads s1.
        userUploads E token s = (Inr uploads, s1)
        \<and> JSON_parse E uploads = Inr (JArr [JObj [(''size'', JNum 1073741824)], JObj [(''size'', JNum 1073741824)]])
        \<longrightarrow> getTotalStorageUsed E token s = (Inr ''2.00 GB'', s1))"
proof (intro conjI allI impI)
  show "\<exists>uploads s1. userUploads E token s = (Inr uploads, s1)"
    by (rule userUploads_returns)
next
  fix uploads s1 parsed
  assume "userUploads E token s = (Inr uploads, s1) \<and> JSON_parse E uploads = Inr parsed
        \<and> (\<forall>items. parsed \<noteq> JArr items)"
  then show "getTotalStorageUsed E token s = (Inr ''0 GB'', s1)"
    using getTotalStorageUsed_not_array by blast
next
  fix uploads s1 items
  assume a: "userUploads E token s = (Inr uploads, s1) \<and> JSON_parse E uploads = Inr (JArr items)
        \<and> list_all sized items
        \<and> list_all (\<lambda>item. 0 \<le> size_or_zero item) items
        \<and> sum_list (map size_or_zero items) < 2 ^ 53"
  then have "0 \<le> sum_list (map size_or_zero items)"
    by (simp add: sum_sizes_nonneg)
  with a show "getTotalStorageUsed E token s =
              (Inr (fixed2 (hundredths (nat (sum_list (map size_or_zero items))) (1024 ^ 3)) @ '' GB''), s1)"
    using getTotalStorageUsed_array by blast
next
  fix uploads s1
  let ?items = "[JObj [(''size'', JNum 1073741824)], JObj [(''size'', JNum 1073741824)]]"
  assume a: "userUploads E token s = (Inr uploads, s1) \<and> JSON_parse E uploads = Inr (JArr ?items)"
  have "list_all sized ?items" "sum_list (map size_or_zero ?items) = 2147483648"
    by (simp_all add: sized_def size_or_zero_def)
  with a getTotalStorageUsed_array [of E token s uploads s1 ?items]
  show "getTotalStorageUsed E token s = (Inr ''2.00 GB'', s1)"
    by (simp add: two_gigabytes)
qed

theorem getTotalStorageUsed_sum_witness:
  "fst (getTotalStorageUsed (small_env one_file (answer 200 two_uploads) [two_uploads]) ''tok'' start)
     = Inr ''2.00 GB''
   \<and> fst (getTotalStorageUsed (small_env one_file (answer 200 (JObj [])) [JObj []]) ''tok'' start)
     = Inr ''0 GB''"
proof -
  let ?E = "small_env one_file (answer 200 two_uploads) [two_uploads]"
  let ?s1 = "\<lparr>sent = [\<lparr>verb = GET, url = ''https://api.web3.storage/user/uploads'',
                        req_headers = [(''Authorization'', ''Bearer tok'')], form = []\<rparr>],
              outside = 1\<rparr> :: nat world"
  have u: "userUploads ?E ''tok'' start = (Inr (render two_uploads), ?s1)"
    by (simp add: userUploads_def io_defs Let_def BASE_URL_replace_def Bearer_def
          small_env_def answer_def start_def)
  have p: "JSON_parse ?E (render two_uploads)
             = Inr (JArr [JObj [(''size'', JNum 1073741824)], JObj [(''size'', JNum 1073741824)]])"
    by (simp add: small_env_def parse_known_def two_uploads_def)
  from getTotalStorageUsed_sum [of ?E "''tok''" start] u p
  have a: "getTotalStorageUsed ?E ''tok'' start = (Inr ''2.00 GB'', ?s1)"
    by blast
  let ?F = "small_env one_file (answer 200 (JObj [])) [JObj []]"
  have u': "userUploads ?F ''tok'' start = (Inr (render (JObj [])), ?s1)"
    by (simp add: userUploads_def io_defs Let_def BASE_URL_replace_def Bearer_def
          small_env_def answer_def start_def)
  have p': "JSON_parse ?F (render (JObj [])) = Inr (JObj [])"
    by (simp add: small_env_def parse_known_def)
  have n: "\<forall>items. JObj [] \<noteq> JArr items" by simp
  from getTotalStorageUsed_sum [of ?F "''tok''" start] u' p' n
  have b: "getTotalStorageUsed ?F ''tok'' start = (Inr ''0 GB'', ?s1)"
    by blast
  from a b show ?thesis by simp
qed

subsection \<open>formatFileSize\<close>
















end
